theory Spec2Isabelle
  imports Main "HOL-Library.Word"
begin

section \<open>JavaScript strings\<close>

text \<open>
  A JavaScript string is a sequence of 16-bit code units. String literals of the source are
  written \<open>lit ''...''\<close>; all of them are ASCII.
\<close>

type_synonym jschar = "16 word"
type_synonym jsstring = "jschar list"

definition lit :: "string \<Rightarrow> jsstring" where
  "lit s = map of_char s"

text \<open>
  \<open>String.prototype.trim\<close> removes the ECMAScript WhiteSpace and LineTerminator code
  points from both ends: TAB, LF, VT, FF, CR, SPACE, NBSP, U+1680, U+2000..U+200A, U+2028,
  U+2029, U+202F, U+205F, U+3000 and U+FEFF. All of them are single code units.
\<close>

definition isWhiteSpace :: "jschar \<Rightarrow> bool" where
  "isWhiteSpace c \<longleftrightarrow>
     c \<in> {0x09, 0x0A, 0x0B, 0x0C, 0x0D, 0x20, 0xA0, 0x1680, 0x2028, 0x2029, 0x202F, 0x205F,
          0x3000, 0xFEFF}
     \<or> (0x2000 \<le> c \<and> c \<le> 0x200A)"

definition trim :: "jsstring \<Rightarrow> jsstring" where
  "trim s = rev (dropWhile isWhiteSpace (rev (dropWhile isWhiteSpace s)))"

text \<open>\<open>Array.prototype.join\<close> on an array of strings.\<close>

fun join :: "jsstring \<Rightarrow> jsstring list \<Rightarrow> jsstring" where
  "join sep [] = []"
| "join sep [x] = x"
| "join sep (x # y # ys) = x @ sep @ join sep (y # ys)"


section \<open>The query gateway: \<open>src/app/api/search/route.ts\<close>\<close>

subsection \<open>Data\<close>

text \<open>
  \<open>SearchResult\<close> (route.ts, lines 6-11). The items of \<open>GoogleSearchResponse\<close> (lines 13-20)
  have the same four fields; the provider sends further fields beside them, so an item is an
  extension \<open>'x SearchResult_scheme\<close> of the record.
\<close>

record SearchResult =
  title :: jsstring
  link :: jsstring
  snippet :: jsstring
  displayLink :: "jsstring option"

record 'x GoogleSearchResponse =
  items :: "'x SearchResult_scheme list option"

text \<open>
  A \<open>URL\<close> object: everything before the query string, and the list of its search
  parameters (names and values decoded). \<open>URLSearchParams.get\<close> returns the value of the
  first parameter of that name, which is \<open>map_of\<close>; \<open>URLSearchParams.set\<close> overwrites
  the first parameter of that name and deletes the others, or appends.
\<close>

record URL =
  endpoint :: jsstring
  searchParams :: "(jsstring \<times> jsstring) list"

fun searchParams_set ::
  "(jsstring \<times> jsstring) list \<Rightarrow> jsstring \<Rightarrow> jsstring \<Rightarrow> (jsstring \<times> jsstring) list" where
  "searchParams_set [] name v = [(name, v)]"
| "searchParams_set ((k, w) # ps) name v =
     (if k = name then (name, v) # filter (\<lambda>p. fst p \<noteq> name) ps
      else (k, w) # searchParams_set ps name v)"

definition set_param :: "URL \<Rightarrow> jsstring \<Rightarrow> jsstring \<Rightarrow> URL" where
  "set_param u name v = u\<lparr>searchParams := searchParams_set (searchParams u) name v\<rparr>"

record request =
  url :: URL

text \<open>\<open>process.env.GOOGLE_API_KEY\<close> and \<open>process.env.GOOGLE_CSE_ID\<close> (lines 3-4).\<close>

record environment =
  GOOGLE_API_KEY :: "jsstring option"
  GOOGLE_CSE_ID :: "jsstring option"

text \<open>
  What \<open>NextResponse.json(body, { status })\<close> is given: the body, either \<open>{ error }\<close> or
  \<open>{ results, summary }\<close>, and the status (200 when the source passes none).
\<close>

datatype json_body = ErrorBody jsstring | SearchBody "SearchResult list" jsstring

datatype NextResponse = NextResponse_json (response_body: json_body) (response_status: nat)

text \<open>
  The value \<open>response.json()\<close> resolves to on the non-ok path, where the source keeps it
  untyped and tests it with \<open>typeof\<close>. \<open>JObj\<close> holds the properties of the parsed object.
  The gateway never reads a number, so its representation is a parameter.
\<close>

datatype 'n json =
    JNull
  | JBool bool
  | JNum 'n
  | JStr jsstring
  | JArr "'n json list"
  | JObj "(jsstring \<times> 'n json) list"

text \<open>
  What \<open>await fetch(...)\<close> (line 60) and the \<open>response.json()\<close> that follows can give:
  \<^item> \<open>FetchRejected\<close>: \<open>fetch\<close> rejects (network failure);
  \<^item> \<open>ResponseNotOk status body\<close>: \<open>response.ok\<close> is false and \<open>response.status\<close> is
    \<open>status\<close>; \<open>body\<close> is what \<open>response.json()\<close> resolves to, \<open>None\<close> when it rejects
    (unparseable body);
  \<^item> \<open>ResponseOk body\<close>: \<open>response.ok\<close> is true; \<open>body\<close> is the parsed body at the type
    \<open>GoogleSearchResponse\<close> the source casts it to (line 73), \<open>None\<close> when
    \<open>response.json()\<close> rejects.
\<close>

datatype ('n, 'x) fetch_outcome =
    FetchRejected
  | ResponseNotOk nat "'n json option"
  | ResponseOk "'x GoogleSearchResponse option"

text \<open>
  The observable effects of one request: the outbound calls, in order, and the number of
  \<open>console.error\<close> lines.
\<close>

record effects =
  fetched :: "URL list"
  logged :: nat

subsection \<open>\<open>summarizeResults\<close> (lines 22-34)\<close>

text \<open>
  The results that are narrated (lines 27-29): \<open>Math.min(results.length, 3)\<close> of them, cut
  off the front by \<open>slice(0, highlightCount)\<close>.
\<close>

definition highlighted :: "SearchResult list \<Rightarrow> SearchResult list" where
  "highlighted results = (let highlightCount = min (length results) 3 in take highlightCount results)"

definition summarizeResults :: "jsstring \<Rightarrow> SearchResult list \<Rightarrow> jsstring" where
  "summarizeResults query results =
     (if length results = 0 then lit ''I could not find any results for '' @ query @ lit ''.''
      else
        let highlights =
              join (lit '' '')
                (map (\<lambda>item. title item @ lit ''. '' @ snippet item) (highlighted results))
        in lit ''Here is what I found for '' @ query @ lit ''. '' @ highlights)"

text \<open>
  The narration as the specification words it: the first \<open>min(3, len(results))\<close> results in
  order, a fragment \<open>"{title}. {snippet}"\<close> for each, the fragments joined with a single
  space (every fragment but the first preceded by one), after the prefix
  \<open>"Here is what I found for {query}. "\<close>.
\<close>

definition spec_fragment :: "SearchResult \<Rightarrow> jsstring" where
  "spec_fragment r = title r @ lit ''. '' @ snippet r"

fun spec_join_spaces :: "jsstring list \<Rightarrow> jsstring" where
  "spec_join_spaces [] = []"
| "spec_join_spaces (f # fs) = f @ concat (map (\<lambda>g. lit '' '' @ g) fs)"

definition spec_summary :: "jsstring \<Rightarrow> SearchResult list \<Rightarrow> jsstring" where
  "spec_summary q rs =
     lit ''Here is what I found for '' @ q @ lit ''. ''
       @ spec_join_spaces (map spec_fragment (take (min 3 (length rs)) rs))"

subsection \<open>\<open>GET\<close> (lines 36-89)\<close>

text \<open>
  \<open>payload.error\<close> (line 69). Reading a property of \<open>null\<close> throws a TypeError; a
  boolean, a number, a string and an array have no property \<open>error\<close>, so the read gives
  \<open>undefined\<close> (\<open>None\<close>); an object gives its property.
\<close>

datatype TypeError = TypeError

fun payload_error :: "'n json \<Rightarrow> TypeError + 'n json option" where
  "payload_error JNull = Inl TypeError"
| "payload_error (JObj props) = Inr (map_of props (lit ''error''))"
| "payload_error _ = Inr None"

text \<open>
  \<open>NextResponse.json(body, { status })\<close> builds a \<open>Response\<close> with a body, which throws a
  RangeError for a status outside 200..599 and a TypeError for a status that admits no body
  (101, 103, 204, 205, 304). The statuses the source writes itself (200, 400, 500) pass; the
  one of line 70 is the provider's.
\<close>

definition status_accepted :: "nat \<Rightarrow> bool" where
  "status_accepted status \<longleftrightarrow>
     200 \<le> status \<and> status \<le> 599 \<and> status \<notin> {101, 103, 204, 205, 304}"

text \<open>\<open>!GOOGLE_API_KEY\<close>: \<open>undefined\<close> and the empty string are falsy.\<close>

fun falsy :: "jsstring option \<Rightarrow> bool" where
  "falsy None = True"
| "falsy (Some s) = (s = [])"

text \<open>The provider request built in lines 54-57.\<close>

definition searchUrl :: "jsstring \<Rightarrow> jsstring \<Rightarrow> jsstring \<Rightarrow> URL" where
  "searchUrl key cx query =
     set_param
       (set_param
          (set_param
             \<lparr>endpoint = lit ''https://www.googleapis.com/customsearch/v1'', searchParams = []\<rparr>
             (lit ''key'') key)
          (lit ''cx'') cx)
       (lit ''q'') query"

text \<open>
  The body of the \<open>try\<close> block from line 67 on, with its \<open>catch\<close> (lines 85-88): the
  number of lines logged and the response.
\<close>

definition respond :: "jsstring \<Rightarrow> ('n, 'x) fetch_outcome \<Rightarrow> nat \<times> NextResponse" where
  "respond query outcome =
     (let failed = (1, NextResponse_json (ErrorBody (lit ''Search request failed'')) 500) in
      case outcome of
        FetchRejected \<Rightarrow> failed
      | ResponseNotOk status body \<Rightarrow>
          (let payload = (case body of None \<Rightarrow> JObj [] | Some p \<Rightarrow> p) in
           case payload_error payload of
             Inl TypeError \<Rightarrow> failed
           | Inr v \<Rightarrow>
               (let message = (case v of Some (JStr s) \<Rightarrow> s | _ \<Rightarrow> lit ''Google Search API error'')
                in if status_accepted status then (0, NextResponse_json (ErrorBody message) status)
                   else failed))
      | ResponseOk body \<Rightarrow>
          (case body of
             None \<Rightarrow> failed
           | Some payload \<Rightarrow>
               (let results =
                      map (\<lambda>item. \<lparr>title = title item, link = link item, snippet = snippet item,
                                   displayLink = displayLink item\<rparr>)
                        (case items payload of None \<Rightarrow> [] | Some xs \<Rightarrow> xs)
                in (0, NextResponse_json (SearchBody results (summarizeResults query results)) 200))))"

definition GET ::
  "environment \<Rightarrow> (URL \<Rightarrow> ('n, 'x) fetch_outcome) \<Rightarrow> request \<Rightarrow> effects \<times> NextResponse" where
  "GET env fetch req =
     (let missing = (\<lparr>fetched = [], logged = 0\<rparr>,
                     NextResponse_json (ErrorBody (lit ''Missing query'')) 400);
          unconfigured = (\<lparr>fetched = [], logged = 0\<rparr>,
                     NextResponse_json (ErrorBody (lit
                       ''Search service is not configured. Please add GOOGLE_API_KEY and GOOGLE_CSE_ID to the environment.''))
                       500)
      in
      case map_of (searchParams (url req)) (lit ''query'') of
        None \<Rightarrow> missing
      | Some query \<Rightarrow>
          if query = [] \<or> trim query = [] then missing
          else if falsy (GOOGLE_API_KEY env) \<or> falsy (GOOGLE_CSE_ID env) then unconfigured
          else
            (case (GOOGLE_API_KEY env, GOOGLE_CSE_ID env) of
               (Some key, Some cx) \<Rightarrow>
                 (let u = searchUrl key cx query;
                      (lines, response) = respond query (fetch u)
                  in (\<lparr>fetched = [u], logged = lines\<rparr>, response))
             | _ \<Rightarrow> unconfigured))"

section \<open>The agent client: the \<open>Home\<close> component\<close>

subsection \<open>Data\<close>

text \<open>
  \<open>SearchItem\<close> has the fields of \<open>SearchResult\<close>; \<open>AgentStatus\<close> is the union of four
  string literals. \<open>AgentState\<close> collects the \<open>useState\<close> cells of the component, and
  \<open>recognitionRef\<close> tells whether \<open>recognitionRef.current\<close> holds an instance.
\<close>

type_synonym SearchItem = SearchResult

datatype AgentStatus = Idle | Listening | Searching | Responding

record AgentState =
  query :: jsstring
  transcript :: jsstring
  results :: "SearchItem list"
  status :: AgentStatus
  error :: "jsstring option"
  speechSupported :: bool
  recognitionRef :: bool

text \<open>
  A thrown value, as the \<open>catch\<close> of \<open>handleSearch\<close> sees it: an instance of \<open>Error\<close>
  with its message, or anything else.
\<close>

datatype thrown = ErrorInstance jsstring | OtherThrown

text \<open>
  The bodies the gateway sends, as the client reads them: \<open>{ error }\<close> on a failure and
  \<open>{ results, summary }\<close> on a success. The client guards every field (\<open>||\<close>, \<open>??\<close>),
  so each may be absent.
\<close>

datatype error_payload = ErrorPayload (error_field: "jsstring option")

datatype search_payload =
  SearchPayload (results_field: "SearchItem list option") (summary_field: "jsstring option")

text \<open>
  What line 164 and the \<open>response.json()\<close> after it can give:
  \<^item> \<open>Threw err\<close>: the expression throws or \<open>fetch\<close> rejects;
  \<^item> \<open>NotOk body\<close>: \<open>response.ok\<close> is false; \<open>None\<close> when \<open>response.json()\<close> rejects;
  \<^item> \<open>OkReply body\<close>: \<open>response.ok\<close> is true; \<open>Inl err\<close> when \<open>response.json()\<close>
    rejects with \<open>err\<close>.
\<close>

datatype gateway_reply =
    Threw thrown
  | NotOk "error_payload option"
  | OkReply "thrown + search_payload"

text \<open>
  One run of a handler: the successive states of the component and the texts handed to
  \<open>speak\<close>.
\<close>

record run =
  states :: "AgentState list"
  spoken :: "jsstring list"

subsection \<open>Speech recognition callbacks (lines 116-121) and \<open>startListening\<close> (lines 137-151)\<close>

definition onerror :: "AgentState \<Rightarrow> AgentState" where
  "onerror st = st\<lparr>status := Idle\<rparr>"

definition onend :: "AgentState \<Rightarrow> AgentState" where
  "onend st = st\<lparr>status := (if status st = Listening then Idle else status st)\<rparr>"

text \<open>\<open>recognitionRef.current.start()\<close> returns or throws.\<close>

datatype start_outcome = Started | StartThrew

definition startListening :: "start_outcome \<Rightarrow> AgentState \<Rightarrow> AgentState" where
  "startListening outcome st =
     (if \<not> recognitionRef st then st
      else
        let st1 = st\<lparr>error := None, transcript := []\<rparr> in
        case outcome of
          Started \<Rightarrow> st1\<lparr>status := Listening\<rparr>
        | StartThrew \<Rightarrow>
            st1\<lparr>error := Some (lit ''Voice input failed to start. Please try again.''),
                status := Idle\<rparr>)"

subsection \<open>\<open>handleSearch\<close> (lines 153-183)\<close>

text \<open>\<open>a || b\<close> on an optional string: \<open>undefined\<close> and the empty string give \<open>b\<close>.\<close>

fun or_else :: "jsstring option \<Rightarrow> jsstring \<Rightarrow> jsstring" where
  "or_else None d = d"
| "or_else (Some s) d = (if s = [] then d else s)"

text \<open>The request of line 164: the gateway's route with the trimmed input as \<open>query\<close>.\<close>

definition api_search :: "jsstring \<Rightarrow> URL" where
  "api_search input = \<lparr>endpoint = lit ''/api/search'', searchParams = [(lit ''query'', trim input)]\<rparr>"


text \<open>
  The states listed are the one after lines 160-161, the one after the response has been
  handled, and on success the one after the timer of line 173 has fired.
\<close>

definition handleSearch :: "(URL \<Rightarrow> gateway_reply) \<Rightarrow> jsstring \<Rightarrow> AgentState \<Rightarrow> run" where
  "handleSearch fetch input st =
     (if trim input = [] then
        \<lparr>states = [st\<lparr>error := Some (lit ''Please provide something to search for.'')\<rparr>],
         spoken = []\<rparr>
      else
        let st1 = st\<lparr>status := Searching, error := None\<rparr>;
            caught = (\<lambda>err.
              \<lparr>states =
                 [st1,
                  st1\<lparr>error := Some (case err of ErrorInstance m \<Rightarrow> m
                                       | OtherThrown \<Rightarrow> lit ''Unexpected error occurred.''),
                      status := Idle\<rparr>],
               spoken = []\<rparr>)
        in
        case fetch (api_search input) of
          Threw err \<Rightarrow> caught err
        | NotOk body \<Rightarrow>
            (let payload = (case body of None \<Rightarrow> ErrorPayload None | Some p \<Rightarrow> p) in
             caught (ErrorInstance
                       (or_else (error_field payload) (lit ''Search failed. Please try again.''))))
        | OkReply (Inl err) \<Rightarrow> caught err
        | OkReply (Inr payload) \<Rightarrow>
            (let st2 = st1\<lparr>results := (case results_field payload of None \<Rightarrow> [] | Some rs \<Rightarrow> rs),
                          status := Responding\<rparr>
             in \<lparr>states = [st1, st2, st2\<lparr>status := Idle\<rparr>],
                 spoken = [or_else (summary_field payload) (lit ''Here are your search results.'')]\<rparr>))"

subsection \<open>Rendering of the findings (lines 207 and 262-278)\<close>

datatype findings = ResultsList "SearchItem list" | Placeholder

definition hasResults :: "AgentState \<Rightarrow> bool" where
  "hasResults st \<longleftrightarrow> length (results st) > 0"

definition render_findings :: "AgentState \<Rightarrow> findings" where
  "render_findings st = (if hasResults st then ResultsList (results st) else Placeholder)"


section \<open>Properties\<close>

subsection \<open>Trimming and joining\<close>

text \<open>A string is blank after trimming exactly when it consists of white space only.\<close>

lemma dropWhile_all: "\<forall>x\<in>set (dropWhile P xs). P x \<Longrightarrow> dropWhile P xs = []"
proof (rule ccontr)
  assume all: "\<forall>x\<in>set (dropWhile P xs). P x" and ne: "dropWhile P xs \<noteq> []"
  from ne have "\<not> P (hd (dropWhile P xs))" by (rule hd_dropWhile)
  moreover from ne have "hd (dropWhile P xs) \<in> set (dropWhile P xs)" by simp
  ultimately show False using all by blast
qed

lemma trim_blank_iff: "trim q = [] \<longleftrightarrow> (\<forall>c\<in>set q. isWhiteSpace c)"
proof
  assume "trim q = []"
  then have "\<forall>x\<in>set (dropWhile isWhiteSpace q). isWhiteSpace x"
    unfolding trim_def by (simp only: rev_is_Nil_conv dropWhile_eq_Nil_conv set_rev)
  then have "dropWhile isWhiteSpace q = []" by (rule dropWhile_all)
  then show "\<forall>c\<in>set q. isWhiteSpace c" by (simp add: dropWhile_eq_Nil_conv)
next
  assume "\<forall>c\<in>set q. isWhiteSpace c"
  then have "dropWhile isWhiteSpace q = []" by (simp add: dropWhile_eq_Nil_conv)
  then show "trim q = []" by (simp only: trim_def rev.simps dropWhile.simps)
qed

lemma trim_nonblank: "trim q \<noteq> [] \<Longrightarrow> q \<noteq> []"
  by (auto simp: trim_def)

lemma join_Cons: "join sep (x # xs) = x @ concat (map (\<lambda>g. sep @ g) xs)"
  by (induction xs arbitrary: x) simp_all

lemma join_spec: "join (lit '' '') fs = spec_join_spaces fs"
  by (cases fs) (simp_all add: join_Cons)

lemma highlighted_take: "highlighted rs = take (min 3 (length rs)) rs"
  by (simp add: highlighted_def min.commute)

lemma summarize_nonempty_results:
  "rs \<noteq> [] \<Longrightarrow> summarizeResults q rs = spec_summary q rs"
proof -
  have "(\<lambda>item. title item @ lit ''. '' @ snippet item) = spec_fragment"
    by (simp add: fun_eq_iff spec_fragment_def)
  then show "rs \<noteq> [] \<Longrightarrow> ?thesis"
    by (simp add: summarizeResults_def spec_summary_def join_spec highlighted_take)
qed

lemma summarize_empty:
  "summarizeResults q [] = lit ''I could not find any results for '' @ q @ lit ''.''"
  by (simp add: summarizeResults_def)

subsection \<open>The paths through \<open>GET\<close>\<close>

lemma searchUrl_eq:
  "searchUrl key cx q =
     \<lparr>endpoint = lit ''https://www.googleapis.com/customsearch/v1'',
      searchParams = [(lit ''key'', key), (lit ''cx'', cx), (lit ''q'', q)]\<rparr>"
  by (simp add: searchUrl_def set_param_def lit_def)

lemma GET_missing:
  "map_of (searchParams (url req)) (lit ''query'') = None \<Longrightarrow>
   GET env fetch req =
     (\<lparr>fetched = [], logged = 0\<rparr>, NextResponse_json (ErrorBody (lit ''Missing query'')) 400)"
  by (simp add: GET_def)

lemma GET_blank:
  "map_of (searchParams (url req)) (lit ''query'') = Some q \<Longrightarrow> trim q = [] \<Longrightarrow>
   GET env fetch req =
     (\<lparr>fetched = [], logged = 0\<rparr>, NextResponse_json (ErrorBody (lit ''Missing query'')) 400)"
  by (simp add: GET_def)

lemma GET_unconfigured:
  "map_of (searchParams (url req)) (lit ''query'') = Some q \<Longrightarrow> trim q \<noteq> [] \<Longrightarrow>
   falsy (GOOGLE_API_KEY env) \<or> falsy (GOOGLE_CSE_ID env) \<Longrightarrow>
   GET env fetch req =
     (\<lparr>fetched = [], logged = 0\<rparr>,
      NextResponse_json (ErrorBody (lit
        ''Search service is not configured. Please add GOOGLE_API_KEY and GOOGLE_CSE_ID to the environment.''))
        500)"
  using trim_nonblank [of q] by (auto simp: GET_def Let_def)

lemma GET_configured:
  "map_of (searchParams (url req)) (lit ''query'') = Some q \<Longrightarrow> trim q \<noteq> [] \<Longrightarrow>
   GOOGLE_API_KEY env = Some key \<Longrightarrow> key \<noteq> [] \<Longrightarrow>
   GOOGLE_CSE_ID env = Some cx \<Longrightarrow> cx \<noteq> [] \<Longrightarrow>
   GET env fetch req =
     (\<lparr>fetched = [searchUrl key cx q],
       logged = fst (respond q (fetch (searchUrl key cx q)))\<rparr>,
      snd (respond q (fetch (searchUrl key cx q))))"
  using trim_nonblank [of q] by (simp add: GET_def Let_def split: prod.splits)

lemma normalize_truncate:
  "(\<lambda>item. \<lparr>title = title item, link = link item, snippet = snippet item,
             displayLink = displayLink item\<rparr>) = SearchResult.truncate"
  by (simp add: fun_eq_iff SearchResult.truncate_def)

lemma respond_ok:
  "respond q (ResponseOk (Some payload)) =
     (0, NextResponse_json
           (SearchBody
              (map SearchResult.truncate (case items payload of None \<Rightarrow> [] | Some xs \<Rightarrow> xs))
              (summarizeResults q
                (map SearchResult.truncate (case items payload of None \<Rightarrow> [] | Some xs \<Rightarrow> xs))))
           200)"
  by (simp add: respond_def Let_def normalize_truncate)

lemma GET_ok:
  assumes "map_of (searchParams (url req)) (lit ''query'') = Some q" and "trim q \<noteq> []"
    and "GOOGLE_API_KEY env = Some key" and "key \<noteq> []"
    and "GOOGLE_CSE_ID env = Some cx" and "cx \<noteq> []"
    and "fetch (searchUrl key cx q) = ResponseOk (Some payload)"
    and "its = (case items payload of None \<Rightarrow> [] | Some xs \<Rightarrow> xs)"
  shows "GET env fetch req =
           (\<lparr>fetched = [searchUrl key cx q], logged = 0\<rparr>,
            NextResponse_json
              (SearchBody (map SearchResult.truncate its)
                 (summarizeResults q (map SearchResult.truncate its))) 200)"
  using assms by (simp add: GET_configured respond_ok)

subsection \<open>The narration\<close>

text \<open>
  Claim C1. For a query that is not blank and a provider answer with at least one item, the
  gateway answers 200 with the normalized results and a summary that is the prefix
  \<open>"Here is what I found for {query}. "\<close> followed by the fragments
  \<open>"{title}. {snippet}"\<close> of the first \<open>min(3, n)\<close> results in order, joined with single
  spaces; the number of results narrated is \<open>min(3, n)\<close>.
\<close>

theorem narration_of_results:
  assumes "map_of (searchParams (url req)) (lit ''query'') = Some q" and "trim q \<noteq> []"
    and "GOOGLE_API_KEY env = Some key" and "key \<noteq> []"
    and "GOOGLE_CSE_ID env = Some cx" and "cx \<noteq> []"
    and "fetch (searchUrl key cx q) = ResponseOk (Some payload)"
    and "items payload = Some its" and "its \<noteq> []"
  shows "snd (GET env fetch req) =
           NextResponse_json
             (SearchBody (map SearchResult.truncate its)
                (spec_summary q (map SearchResult.truncate its))) 200
         \<and> summarizeResults q (map SearchResult.truncate its)
             = spec_summary q (map SearchResult.truncate its)
         \<and> length (highlighted (map SearchResult.truncate its)) = min 3 (length its)"
proof -
  have its: "its = (case items payload of None \<Rightarrow> [] | Some xs \<Rightarrow> xs)"
    using assms(8) by simp
  have ne: "map SearchResult.truncate its \<noteq> []"
    using assms(9) by simp
  have sum: "summarizeResults q (map SearchResult.truncate its)
               = spec_summary q (map SearchResult.truncate its)"
    using ne by (rule summarize_nonempty_results)
  have "snd (GET env fetch req) =
          NextResponse_json
            (SearchBody (map SearchResult.truncate its)
               (summarizeResults q (map SearchResult.truncate its))) 200"
    using GET_ok [where fetch = fetch, OF assms(1-7) its] by simp
  then show ?thesis
    using sum by (simp add: highlighted_take)
qed

theorem narration_of_results_witness:
  "snd (GET \<lparr>GOOGLE_API_KEY = Some (lit ''k''), GOOGLE_CSE_ID = Some (lit ''c'')\<rparr>
         (\<lambda>u. ResponseOk (Some \<lparr>items = Some
            [\<lparr>title = lit ''A'', link = lit ''a'', snippet = lit ''x'', displayLink = None\<rparr>,
             \<lparr>title = lit ''B'', link = lit ''b'', snippet = lit ''y'', displayLink = None\<rparr>,
             \<lparr>title = lit ''C'', link = lit ''c'', snippet = lit ''z'', displayLink = None\<rparr>,
             \<lparr>title = lit ''D'', link = lit ''d'', snippet = lit ''w'', displayLink = None\<rparr>,
             \<lparr>title = lit ''E'', link = lit ''e'', snippet = lit ''v'', displayLink = None\<rparr>]\<rparr>)
           :: (unit, unit) fetch_outcome)
         \<lparr>url = \<lparr>endpoint = lit ''/api/search'',
                 searchParams = [(lit ''query'', lit ''weather'')]\<rparr>\<rparr>)
   = NextResponse_json
       (SearchBody
          [\<lparr>title = lit ''A'', link = lit ''a'', snippet = lit ''x'', displayLink = None\<rparr>,
           \<lparr>title = lit ''B'', link = lit ''b'', snippet = lit ''y'', displayLink = None\<rparr>,
           \<lparr>title = lit ''C'', link = lit ''c'', snippet = lit ''z'', displayLink = None\<rparr>,
           \<lparr>title = lit ''D'', link = lit ''d'', snippet = lit ''w'', displayLink = None\<rparr>,
           \<lparr>title = lit ''E'', link = lit ''e'', snippet = lit ''v'', displayLink = None\<rparr>]
          (lit ''Here is what I found for weather. A. x B. y C. z'')) 200
   \<and> length (highlighted
        [\<lparr>title = lit ''A'', link = lit ''a'', snippet = lit ''x'', displayLink = None\<rparr>,
         \<lparr>title = lit ''B'', link = lit ''b'', snippet = lit ''y'', displayLink = None\<rparr>,
         \<lparr>title = lit ''C'', link = lit ''c'', snippet = lit ''z'', displayLink = None\<rparr>,
         \<lparr>title = lit ''D'', link = lit ''d'', snippet = lit ''w'', displayLink = None\<rparr>,
         \<lparr>title = lit ''E'', link = lit ''e'', snippet = lit ''v'', displayLink = None\<rparr>]) = 3"
proof -
  let ?env = "\<lparr>GOOGLE_API_KEY = Some (lit ''k''), GOOGLE_CSE_ID = Some (lit ''c'')\<rparr>"
  let ?req = "\<lparr>url = \<lparr>endpoint = lit ''/api/search'',
                 searchParams = [(lit ''query'', lit ''weather'')]\<rparr>\<rparr>"
  let ?its = "[\<lparr>title = lit ''A'', link = lit ''a'', snippet = lit ''x'', displayLink = None\<rparr>,
             \<lparr>title = lit ''B'', link = lit ''b'', snippet = lit ''y'', displayLink = None\<rparr>,
             \<lparr>title = lit ''C'', link = lit ''c'', snippet = lit ''z'', displayLink = None\<rparr>,
             \<lparr>title = lit ''D'', link = lit ''d'', snippet = lit ''w'', displayLink = None\<rparr>,
             \<lparr>title = lit ''E'', link = lit ''e'', snippet = lit ''v'', displayLink = None\<rparr>]
             :: SearchResult list"
  let ?fetch = "\<lambda>u::URL. ResponseOk (Some \<lparr>items = Some ?its\<rparr>) :: (unit, unit) fetch_outcome"
  have h1: "map_of (searchParams (url ?req)) (lit ''query'') = Some (lit ''weather'')" by simp
  have h2: "trim (lit ''weather'') \<noteq> []" by (simp add: trim_def lit_def isWhiteSpace_def)
  have h3: "GOOGLE_API_KEY ?env = Some (lit ''k'')" by simp
  have h4: "lit ''k'' \<noteq> []" by (simp add: lit_def)
  have h5: "GOOGLE_CSE_ID ?env = Some (lit ''c'')" by simp
  have h6: "lit ''c'' \<noteq> []" by (simp add: lit_def)
  have h7: "?fetch (searchUrl (lit ''k'') (lit ''c'') (lit ''weather''))
              = ResponseOk (Some \<lparr>items = Some ?its\<rparr>)" by simp
  have h8: "items \<lparr>items = Some ?its\<rparr> = Some ?its" by simp
  have h9: "?its \<noteq> []" by simp
  have s: "spec_summary (lit ''weather'') ?its
             = lit ''Here is what I found for weather. A. x B. y C. z''"
    by (simp add: spec_summary_def spec_fragment_def lit_def)
  show ?thesis
    using narration_of_results [where fetch = ?fetch, OF h1 h2 h3 h4 h5 h6 h7 h8 h9]
    by (simp add: s SearchResult.truncate_def)
qed

text \<open>
  Claim C2. For a query that is not blank and a provider answer without items (the list absent
  or empty), the summary is exactly \<open>"I could not find any results for {query}."\<close>; and the
  summary of every successful response is a non-empty string.
\<close>

theorem no_results_narration:
  assumes "map_of (searchParams (url req)) (lit ''query'') = Some q" and "trim q \<noteq> []"
    and "GOOGLE_API_KEY env = Some key" and "key \<noteq> []"
    and "GOOGLE_CSE_ID env = Some cx" and "cx \<noteq> []"
    and "fetch (searchUrl key cx q) = ResponseOk (Some payload)"
  shows "(items payload = None \<or> items payload = Some [] \<longrightarrow>
            snd (GET env fetch req) =
              NextResponse_json
                (SearchBody [] (lit ''I could not find any results for '' @ q @ lit ''.'')) 200)
         \<and> (\<exists>rs s. snd (GET env fetch req) = NextResponse_json (SearchBody rs s) 200 \<and> s \<noteq> [])"
proof -
  define its where "its = (case items payload of None \<Rightarrow> [] | Some xs \<Rightarrow> xs)"
  have resp: "snd (GET env fetch req) =
          NextResponse_json
            (SearchBody (map SearchResult.truncate its)
               (summarizeResults q (map SearchResult.truncate its))) 200"
    using GET_ok [where fetch = fetch, OF assms its_def] by simp
  have zero: "items payload = None \<or> items payload = Some [] \<Longrightarrow> its = []"
    by (auto simp: its_def)
  have nonempty: "summarizeResults q rs \<noteq> []" for rs
    by (simp add: summarizeResults_def lit_def Let_def)
  from resp zero nonempty show ?thesis
    by (auto simp: summarize_empty)
qed

theorem no_results_narration_witness:
  "snd (GET \<lparr>GOOGLE_API_KEY = Some (lit ''k''), GOOGLE_CSE_ID = Some (lit ''c'')\<rparr>
         (\<lambda>u. ResponseOk (Some \<lparr>items = None\<rparr>) :: (unit, unit) fetch_outcome)
         \<lparr>url = \<lparr>endpoint = lit ''/api/search'',
                 searchParams = [(lit ''query'', lit ''news'')]\<rparr>\<rparr>)
   = NextResponse_json (SearchBody [] (lit ''I could not find any results for news.'')) 200"
proof -
  let ?env = "\<lparr>GOOGLE_API_KEY = Some (lit ''k''), GOOGLE_CSE_ID = Some (lit ''c'')\<rparr>"
  let ?req = "\<lparr>url = \<lparr>endpoint = lit ''/api/search'',
                 searchParams = [(lit ''query'', lit ''news'')]\<rparr>\<rparr>"
  let ?payload = "\<lparr>items = None\<rparr> :: unit GoogleSearchResponse"
  let ?fetch = "\<lambda>u::URL. ResponseOk (Some ?payload) :: (unit, unit) fetch_outcome"
  have h1: "map_of (searchParams (url ?req)) (lit ''query'') = Some (lit ''news'')" by simp
  have h2: "trim (lit ''news'') \<noteq> []" by (simp add: trim_def lit_def isWhiteSpace_def)
  have h3: "GOOGLE_API_KEY ?env = Some (lit ''k'')" by simp
  have h4: "lit ''k'' \<noteq> []" by (simp add: lit_def)
  have h5: "GOOGLE_CSE_ID ?env = Some (lit ''c'')" by simp
  have h6: "lit ''c'' \<noteq> []" by (simp add: lit_def)
  have h7: "?fetch (searchUrl (lit ''k'') (lit ''c'') (lit ''news'')) = ResponseOk (Some ?payload)"
    by simp
  have zero: "items ?payload = None \<or> items ?payload = Some []" by simp
  have s: "lit ''I could not find any results for '' @ lit ''news'' @ lit ''.''
             = lit ''I could not find any results for news.''"
    by (simp add: lit_def)
  show ?thesis
    using no_results_narration [where fetch = ?fetch, OF h1 h2 h3 h4 h5 h6 h7] zero
    by (simp add: s)
qed

subsection \<open>Validation and configuration\<close>

text \<open>
  Claim C4. When the \<open>query\<close> parameter is absent or blank after trimming, the gateway
  answers 400 with \<open>{ error: "Missing query" }\<close> and makes no outbound call, whatever the
  credentials and whatever the provider would answer.
\<close>

theorem missing_query_rejected:
  assumes "map_of (searchParams (url req)) (lit ''query'') = None
           \<or> (\<exists>q. map_of (searchParams (url req)) (lit ''query'') = Some q \<and> trim q = [])"
  shows "GET env fetch req =
           (\<lparr>fetched = [], logged = 0\<rparr>,
            NextResponse_json (ErrorBody (lit ''Missing query'')) 400)"
  using assms by (auto simp: GET_missing GET_blank)

theorem missing_query_rejected_witness:
  "GET \<lparr>GOOGLE_API_KEY = Some (lit ''k''), GOOGLE_CSE_ID = Some (lit ''c'')\<rparr>
       (\<lambda>u. ResponseOk (Some \<lparr>items = None\<rparr>) :: (unit, unit) fetch_outcome)
       \<lparr>url = \<lparr>endpoint = lit ''/api/search'', searchParams = [(lit ''query'', lit ''  '')]\<rparr>\<rparr>
     = (\<lparr>fetched = [], logged = 0\<rparr>, NextResponse_json (ErrorBody (lit ''Missing query'')) 400)
   \<and> GET \<lparr>GOOGLE_API_KEY = None, GOOGLE_CSE_ID = None\<rparr>
       (\<lambda>u. FetchRejected :: (unit, unit) fetch_outcome)
       \<lparr>url = \<lparr>endpoint = lit ''/api/search'', searchParams = []\<rparr>\<rparr>
     = (\<lparr>fetched = [], logged = 0\<rparr>, NextResponse_json (ErrorBody (lit ''Missing query'')) 400)"
proof -
  let ?blank = "\<lparr>url = \<lparr>endpoint = lit ''/api/search'',
                   searchParams = [(lit ''query'', lit ''  '')]\<rparr>\<rparr>"
  let ?absent = "\<lparr>url = \<lparr>endpoint = lit ''/api/search'', searchParams = []\<rparr>\<rparr>"
  have t: "trim (lit ''  '') = []" by (simp add: trim_def lit_def isWhiteSpace_def)
  have h1: "map_of (searchParams (url ?blank)) (lit ''query'') = None
           \<or> (\<exists>q. map_of (searchParams (url ?blank)) (lit ''query'') = Some q \<and> trim q = [])"
    using t by simp
  have h2: "map_of (searchParams (url ?absent)) (lit ''query'') = None
           \<or> (\<exists>q. map_of (searchParams (url ?absent)) (lit ''query'') = Some q \<and> trim q = [])"
    by simp
  show ?thesis
    using missing_query_rejected
            [where env = "\<lparr>GOOGLE_API_KEY = Some (lit ''k''), GOOGLE_CSE_ID = Some (lit ''c'')\<rparr>"
               and fetch = "\<lambda>u. ResponseOk (Some \<lparr>items = None\<rparr>) :: (unit, unit) fetch_outcome",
             OF h1]
          missing_query_rejected
            [where env = "\<lparr>GOOGLE_API_KEY = None, GOOGLE_CSE_ID = None\<rparr>"
               and fetch = "\<lambda>u. FetchRejected :: (unit, unit) fetch_outcome",
             OF h2]
    by simp
qed

text \<open>
  Claim C3, as stated, fails: the query is validated before the credentials are looked at
  (line 40 comes before line 44), so an empty query without credentials is answered 400
  \<open>"Missing query"\<close>, not 500.
\<close>

theorem configuration_checked_first_counterexample:
  "falsy (GOOGLE_API_KEY \<lparr>GOOGLE_API_KEY = None, GOOGLE_CSE_ID = None\<rparr>)
   \<and> snd (GET \<lparr>GOOGLE_API_KEY = None, GOOGLE_CSE_ID = None\<rparr>
            (\<lambda>u. FetchRejected :: (unit, unit) fetch_outcome)
            \<lparr>url = \<lparr>endpoint = lit ''/api/search'', searchParams = [(lit ''query'', [])]\<rparr>\<rparr>)
       = NextResponse_json (ErrorBody (lit ''Missing query'')) 400
   \<and> response_status
        (snd (GET \<lparr>GOOGLE_API_KEY = None, GOOGLE_CSE_ID = None\<rparr>
            (\<lambda>u. FetchRejected :: (unit, unit) fetch_outcome)
            \<lparr>url = \<lparr>endpoint = lit ''/api/search'', searchParams = [(lit ''query'', [])]\<rparr>\<rparr>))
       \<noteq> 500"
  by (simp add: GET_def trim_def)

text \<open>
  Claim C3, amended. For a query that is present and not blank after trimming, if either
  credential is absent from the environment (or is the empty string), the gateway answers 500
  with the \<open>"Search service is not configured. ..."\<close> message and makes no outbound call,
  whatever the provider would answer.
\<close>

theorem configuration_error:
  assumes "map_of (searchParams (url req)) (lit ''query'') = Some q" and "trim q \<noteq> []"
    and "falsy (GOOGLE_API_KEY env) \<or> falsy (GOOGLE_CSE_ID env)"
  shows "GET env fetch req =
     (\<lparr>fetched = [], logged = 0\<rparr>,
      NextResponse_json (ErrorBody (lit
        ''Search service is not configured. Please add GOOGLE_API_KEY and GOOGLE_CSE_ID to the environment.''))
        500)"
  using assms by (rule GET_unconfigured)

theorem configuration_error_witness:
  "GET \<lparr>GOOGLE_API_KEY = Some (lit ''k''), GOOGLE_CSE_ID = None\<rparr>
       (\<lambda>u. ResponseOk (Some \<lparr>items = None\<rparr>) :: (unit, unit) fetch_outcome)
       \<lparr>url = \<lparr>endpoint = lit ''/api/search'', searchParams = [(lit ''query'', lit ''news'')]\<rparr>\<rparr>
   = (\<lparr>fetched = [], logged = 0\<rparr>,
      NextResponse_json (ErrorBody (lit
        ''Search service is not configured. Please add GOOGLE_API_KEY and GOOGLE_CSE_ID to the environment.''))
        500)"
proof -
  let ?env = "\<lparr>GOOGLE_API_KEY = Some (lit ''k''), GOOGLE_CSE_ID = None\<rparr>"
  let ?req = "\<lparr>url = \<lparr>endpoint = lit ''/api/search'',
                 searchParams = [(lit ''query'', lit ''news'')]\<rparr>\<rparr>"
  have h1: "map_of (searchParams (url ?req)) (lit ''query'') = Some (lit ''news'')" by simp
  have h2: "trim (lit ''news'') \<noteq> []" by (simp add: trim_def lit_def isWhiteSpace_def)
  have h3: "falsy (GOOGLE_API_KEY ?env) \<or> falsy (GOOGLE_CSE_ID ?env)" by simp
  show ?thesis
    using configuration_error
            [where fetch = "\<lambda>u. ResponseOk (Some \<lparr>items = None\<rparr>) :: (unit, unit) fetch_outcome",
             OF h1 h2 h3]
    by simp
qed

subsection \<open>Result mapping\<close>

text \<open>
  Claim C5. The normalized results are the provider's items, one for one and in the provider's
  order, each with the item's \<open>title\<close>, \<open>link\<close>, \<open>snippet\<close> and \<open>displayLink\<close>
  unmodified; nothing is dropped or merged, and an absent item list gives the empty list.
\<close>

theorem results_mapped_verbatim:
  assumes "map_of (searchParams (url req)) (lit ''query'') = Some q" and "trim q \<noteq> []"
    and "GOOGLE_API_KEY env = Some key" and "key \<noteq> []"
    and "GOOGLE_CSE_ID env = Some cx" and "cx \<noteq> []"
    and "fetch (searchUrl key cx q) = ResponseOk (Some payload)"
    and "its = (case items payload of None \<Rightarrow> [] | Some xs \<Rightarrow> xs)"
  shows "\<exists>rs s. snd (GET env fetch req) = NextResponse_json (SearchBody rs s) 200
           \<and> length rs = length its
           \<and> (\<forall>i<length its.
                 title (rs ! i) = title (its ! i) \<and> link (rs ! i) = link (its ! i)
                 \<and> snippet (rs ! i) = snippet (its ! i)
                 \<and> displayLink (rs ! i) = displayLink (its ! i))"
proof -
  have "snd (GET env fetch req) =
          NextResponse_json
            (SearchBody (map SearchResult.truncate its)
               (summarizeResults q (map SearchResult.truncate its))) 200"
    using GET_ok [where fetch = fetch, OF assms] by simp
  moreover have "length (map SearchResult.truncate its) = length its"
    by simp
  moreover have "\<forall>i<length its.
      title (map SearchResult.truncate its ! i) = title (its ! i)
      \<and> link (map SearchResult.truncate its ! i) = link (its ! i)
      \<and> snippet (map SearchResult.truncate its ! i) = snippet (its ! i)
      \<and> displayLink (map SearchResult.truncate its ! i) = displayLink (its ! i)"
    by (simp add: SearchResult.truncate_def)
  ultimately show ?thesis by blast
qed

theorem results_mapped_verbatim_witness:
  "snd (GET \<lparr>GOOGLE_API_KEY = Some (lit ''k''), GOOGLE_CSE_ID = Some (lit ''c'')\<rparr>
         (\<lambda>u. ResponseOk (Some \<lparr>items = Some
            [\<lparr>title = lit ''B'', link = lit ''b'', snippet = lit ''y'', displayLink = Some (lit ''d'')\<rparr>,
             \<lparr>title = lit ''A'', link = lit ''a'', snippet = lit ''x'', displayLink = None\<rparr>,
             \<lparr>title = lit ''B'', link = lit ''b'', snippet = lit ''y'', displayLink = Some (lit ''d'')\<rparr>]\<rparr>)
           :: (unit, unit) fetch_outcome)
         \<lparr>url = \<lparr>endpoint = lit ''/api/search'',
                 searchParams = [(lit ''query'', lit ''news'')]\<rparr>\<rparr>)
   = NextResponse_json
       (SearchBody
          [\<lparr>title = lit ''B'', link = lit ''b'', snippet = lit ''y'', displayLink = Some (lit ''d'')\<rparr>,
           \<lparr>title = lit ''A'', link = lit ''a'', snippet = lit ''x'', displayLink = None\<rparr>,
           \<lparr>title = lit ''B'', link = lit ''b'', snippet = lit ''y'', displayLink = Some (lit ''d'')\<rparr>]
          (lit ''Here is what I found for news. B. y A. x B. y'')) 200"
proof -
  let ?env = "\<lparr>GOOGLE_API_KEY = Some (lit ''k''), GOOGLE_CSE_ID = Some (lit ''c'')\<rparr>"
  let ?req = "\<lparr>url = \<lparr>endpoint = lit ''/api/search'',
                 searchParams = [(lit ''query'', lit ''news'')]\<rparr>\<rparr>"
  let ?its = "[\<lparr>title = lit ''B'', link = lit ''b'', snippet = lit ''y'', displayLink = Some (lit ''d'')\<rparr>,
             \<lparr>title = lit ''A'', link = lit ''a'', snippet = lit ''x'', displayLink = None\<rparr>,
             \<lparr>title = lit ''B'', link = lit ''b'', snippet = lit ''y'', displayLink = Some (lit ''d'')\<rparr>]
             :: SearchResult list"
  let ?fetch = "\<lambda>u::URL. ResponseOk (Some \<lparr>items = Some ?its\<rparr>) :: (unit, unit) fetch_outcome"
  have h1: "map_of (searchParams (url ?req)) (lit ''query'') = Some (lit ''news'')" by simp
  have h2: "trim (lit ''news'') \<noteq> []" by (simp add: trim_def lit_def isWhiteSpace_def)
  have h3: "GOOGLE_API_KEY ?env = Some (lit ''k'')" by simp
  have h4: "lit ''k'' \<noteq> []" by (simp add: lit_def)
  have h5: "GOOGLE_CSE_ID ?env = Some (lit ''c'')" by simp
  have h6: "lit ''c'' \<noteq> []" by (simp add: lit_def)
  have h7: "?fetch (searchUrl (lit ''k'') (lit ''c'') (lit ''news''))
              = ResponseOk (Some \<lparr>items = Some ?its\<rparr>)" by simp
  have h8: "?its = (case items \<lparr>items = Some ?its\<rparr> of None \<Rightarrow> [] | Some xs \<Rightarrow> xs)" by simp
  obtain rs s where r: "snd (GET ?env ?fetch ?req) = NextResponse_json (SearchBody rs s) 200"
    and len: "length rs = length ?its"
    and fields: "\<forall>i<length ?its.
                 title (rs ! i) = title (?its ! i) \<and> link (rs ! i) = link (?its ! i)
                 \<and> snippet (rs ! i) = snippet (?its ! i)
                 \<and> displayLink (rs ! i) = displayLink (?its ! i)"
    using results_mapped_verbatim [where fetch = ?fetch, OF h1 h2 h3 h4 h5 h6 h7 h8] by blast
  have "\<forall>i<length ?its. rs ! i = ?its ! i"
    using fields by (simp add: SearchResult.equality)
  then have rs: "rs = ?its"
    using len by (simp add: list_eq_iff_nth_eq)
  have "snd (GET ?env ?fetch ?req) =
          NextResponse_json
            (SearchBody (map SearchResult.truncate ?its)
               (summarizeResults (lit ''news'') (map SearchResult.truncate ?its))) 200"
    using GET_ok [where fetch = ?fetch, OF h1 h2 h3 h4 h5 h6 h7 h8] by simp
  with r have "s = summarizeResults (lit ''news'') (map SearchResult.truncate ?its)"
    by auto
  then have s: "s = lit ''Here is what I found for news. B. y A. x B. y''"
    by (simp add: summarizeResults_def highlighted_def SearchResult.truncate_def lit_def)
  show ?thesis using r rs s by simp
qed

subsection \<open>Provider failures\<close>

text \<open>
  Whenever the body of a response that is not ok is anything but the JSON value \<open>null\<close>
  (unparseable bodies included), the provider's status is forwarded, with the provider's
  \<open>error\<close> when that is a string and the generic message otherwise.
\<close>

lemma provider_error_forwarded:
  assumes "map_of (searchParams (url req)) (lit ''query'') = Some q" and "trim q \<noteq> []"
    and "GOOGLE_API_KEY env = Some key" and "key \<noteq> []"
    and "GOOGLE_CSE_ID env = Some cx" and "cx \<noteq> []"
    and "fetch (searchUrl key cx q) = ResponseNotOk st body"
    and "body \<noteq> Some JNull" and "status_accepted st"
  shows "snd (GET env fetch req) =
           NextResponse_json
             (ErrorBody (case body of
                           Some (JObj props) \<Rightarrow>
                             (case map_of props (lit ''error'') of
                                Some (JStr s) \<Rightarrow> s
                              | _ \<Rightarrow> lit ''Google Search API error'')
                         | _ \<Rightarrow> lit ''Google Search API error''))
             st"
proof -
  have "snd (GET env fetch req) = snd (respond q (fetch (searchUrl key cx q)))"
    using GET_configured [where fetch = fetch, OF assms(1-6)] by simp
  moreover have "snd (respond q (fetch (searchUrl key cx q))) =
           NextResponse_json
             (ErrorBody (case body of
                           Some (JObj props) \<Rightarrow>
                             (case map_of props (lit ''error'') of
                                Some (JStr s) \<Rightarrow> s
                              | _ \<Rightarrow> lit ''Google Search API error'')
                         | _ \<Rightarrow> lit ''Google Search API error''))
             st"
  proof (cases body)
    case None
    then show ?thesis by (simp add: respond_def assms(7) assms(9))
  next
    case (Some p)
    with assms(8) show ?thesis
      by (cases p) (simp_all add: respond_def assms(7) assms(9))
  qed
  ultimately show ?thesis by simp
qed

text \<open>
  A provider status that \<open>NextResponse.json\<close> refuses (304, or one outside 200..599) is not
  forwarded either: line 70 throws, and the \<open>catch\<close> answers 500.
\<close>

lemma provider_status_refused:
  assumes "map_of (searchParams (url req)) (lit ''query'') = Some q" and "trim q \<noteq> []"
    and "GOOGLE_API_KEY env = Some key" and "key \<noteq> []"
    and "GOOGLE_CSE_ID env = Some cx" and "cx \<noteq> []"
    and "fetch (searchUrl key cx q) = ResponseNotOk st body"
    and "\<not> status_accepted st"
  shows "GET env fetch req =
           (\<lparr>fetched = [searchUrl key cx q], logged = 1\<rparr>,
            NextResponse_json (ErrorBody (lit ''Search request failed'')) 500)"
proof -
  have "respond q (fetch (searchUrl key cx q)) =
          (1, NextResponse_json (ErrorBody (lit ''Search request failed'')) 500)"
    using assms(8)
    by (simp add: respond_def assms(7) Let_def split: option.splits sum.splits TypeError.splits)
  then show ?thesis
    using GET_configured [where fetch = fetch, OF assms(1-6)] by simp
qed

text \<open>
  Claim C6 says that every provider response that is not ok is forwarded with its status and
  the provider's or the generic message. The gateway misses one case: when the body is the
  JSON value \<open>null\<close>, reading \<open>payload.error\<close> (line 69) throws, the \<open>catch\<close> of line 85
  takes over, and a provider status 403 is answered 500 \<open>"Search request failed"\<close>, with a
  line logged. (The refused statuses above fail the claim in the same way, at line 70.)
\<close>

theorem provider_null_body_not_forwarded:
  "GET \<lparr>GOOGLE_API_KEY = Some (lit ''k''), GOOGLE_CSE_ID = Some (lit ''c'')\<rparr>
       (\<lambda>u. ResponseNotOk 403 (Some JNull) :: (unit, unit) fetch_outcome)
       \<lparr>url = \<lparr>endpoint = lit ''/api/search'', searchParams = [(lit ''query'', lit ''news'')]\<rparr>\<rparr>
   = (\<lparr>fetched = [\<lparr>endpoint = lit ''https://www.googleapis.com/customsearch/v1'',
                   searchParams = [(lit ''key'', lit ''k''), (lit ''cx'', lit ''c''),
                                   (lit ''q'', lit ''news'')]\<rparr>],
       logged = 1\<rparr>,
      NextResponse_json (ErrorBody (lit ''Search request failed'')) 500)"
proof -
  have "trim (lit ''news'') \<noteq> []" by (simp add: trim_def lit_def isWhiteSpace_def)
  moreover have "lit ''k'' \<noteq> []" "lit ''c'' \<noteq> []" "lit ''news'' \<noteq> []" by (simp_all add: lit_def)
  ultimately show ?thesis
    by (simp add: GET_def respond_def searchUrl_eq)
qed

subsection \<open>The query is used as received\<close>

text \<open>
  Claim C8. A query that is not blank is used untrimmed: it is the \<open>q\<close> parameter of the one
  provider request, and it stands verbatim in the summary, right after the fixed opening words.
  The instance below has the query \<open>" weather "\<close>, whose blanks reappear in both places.
\<close>

theorem query_not_trimmed:
  assumes "map_of (searchParams (url req)) (lit ''query'') = Some q" and "trim q \<noteq> []"
    and "GOOGLE_API_KEY env = Some key" and "key \<noteq> []"
    and "GOOGLE_CSE_ID env = Some cx" and "cx \<noteq> []"
  shows "fetched (fst (GET env fetch req)) = [searchUrl key cx q]
         \<and> map_of (searchParams (searchUrl key cx q)) (lit ''q'') = Some q
         \<and> (\<forall>payload. fetch (searchUrl key cx q) = ResponseOk (Some payload) \<longrightarrow>
               (\<exists>rs pre post.
                  snd (GET env fetch req) = NextResponse_json (SearchBody rs (pre @ q @ post)) 200
                  \<and> (pre = lit ''I could not find any results for ''
                       \<or> pre = lit ''Here is what I found for '')))"
proof -
  have sent: "fetched (fst (GET env fetch req)) = [searchUrl key cx q]"
    using GET_configured [where fetch = fetch, OF assms] by simp
  have param: "map_of (searchParams (searchUrl key cx q)) (lit ''q'') = Some q"
    by (simp add: searchUrl_eq lit_def)
  have shape: "\<exists>pre post. summarizeResults q rs = pre @ q @ post
                 \<and> (pre = lit ''I could not find any results for ''
                       \<or> pre = lit ''Here is what I found for '')" for rs
    by (cases "rs = []") (auto simp: summarizeResults_def Let_def)
  have ok: "\<exists>rs pre post.
                  snd (GET env fetch req) = NextResponse_json (SearchBody rs (pre @ q @ post)) 200
                  \<and> (pre = lit ''I could not find any results for ''
                       \<or> pre = lit ''Here is what I found for '')"
    if "fetch (searchUrl key cx q) = ResponseOk (Some payload)" for payload
  proof -
    define its where "its = (case items payload of None \<Rightarrow> [] | Some xs \<Rightarrow> xs)"
    have "snd (GET env fetch req) =
            NextResponse_json
              (SearchBody (map SearchResult.truncate its)
                 (summarizeResults q (map SearchResult.truncate its))) 200"
      using GET_ok [where fetch = fetch, OF assms that its_def] by simp
    with shape [of "map SearchResult.truncate its"] show ?thesis
      by metis
  qed
  from sent param ok show ?thesis by blast
qed

theorem query_not_trimmed_witness:
  "trim (lit '' weather '') = lit ''weather''
   \<and> fetched (fst
         (GET \<lparr>GOOGLE_API_KEY = Some (lit ''k''), GOOGLE_CSE_ID = Some (lit ''c'')\<rparr>
              (\<lambda>u. ResponseOk (Some \<lparr>items = None\<rparr>) :: (unit, unit) fetch_outcome)
              \<lparr>url = \<lparr>endpoint = lit ''/api/search'',
                      searchParams = [(lit ''query'', lit '' weather '')]\<rparr>\<rparr>))
       = [\<lparr>endpoint = lit ''https://www.googleapis.com/customsearch/v1'',
           searchParams = [(lit ''key'', lit ''k''), (lit ''cx'', lit ''c''),
                           (lit ''q'', lit '' weather '')]\<rparr>]
   \<and> snd (GET \<lparr>GOOGLE_API_KEY = Some (lit ''k''), GOOGLE_CSE_ID = Some (lit ''c'')\<rparr>
            (\<lambda>u. ResponseOk (Some \<lparr>items = None\<rparr>) :: (unit, unit) fetch_outcome)
            \<lparr>url = \<lparr>endpoint = lit ''/api/search'',
                    searchParams = [(lit ''query'', lit '' weather '')]\<rparr>\<rparr>)
       = NextResponse_json
           (SearchBody [] (lit ''I could not find any results for  weather .'')) 200"
proof -
  let ?env = "\<lparr>GOOGLE_API_KEY = Some (lit ''k''), GOOGLE_CSE_ID = Some (lit ''c'')\<rparr>"
  let ?req = "\<lparr>url = \<lparr>endpoint = lit ''/api/search'',
                 searchParams = [(lit ''query'', lit '' weather '')]\<rparr>\<rparr>"
  let ?payload = "\<lparr>items = None\<rparr> :: unit GoogleSearchResponse"
  let ?fetch = "\<lambda>u::URL. ResponseOk (Some ?payload) :: (unit, unit) fetch_outcome"
  have t: "trim (lit '' weather '') = lit ''weather''"
    by (simp add: trim_def lit_def isWhiteSpace_def)
  have h1: "map_of (searchParams (url ?req)) (lit ''query'') = Some (lit '' weather '')" by simp
  have h2: "trim (lit '' weather '') \<noteq> []" by (simp add: t) (simp add: lit_def)
  have h3: "GOOGLE_API_KEY ?env = Some (lit ''k'')" by simp
  have h4: "lit ''k'' \<noteq> []" by (simp add: lit_def)
  have h5: "GOOGLE_CSE_ID ?env = Some (lit ''c'')" by simp
  have h6: "lit ''c'' \<noteq> []" by (simp add: lit_def)
  note qt = query_not_trimmed [where fetch = ?fetch, OF h1 h2 h3 h4 h5 h6]
  have sent: "fetched (fst (GET ?env ?fetch ?req))
                = [searchUrl (lit ''k'') (lit ''c'') (lit '' weather '')]"
    using qt by blast
  have resp: "snd (GET ?env ?fetch ?req)
       = NextResponse_json
           (SearchBody [] (lit ''I could not find any results for  weather .'')) 200"
  proof -
    have "[] = (case items ?payload of None \<Rightarrow> [] | Some xs \<Rightarrow> xs)" by simp
    then have "snd (GET ?env ?fetch ?req) =
          NextResponse_json
            (SearchBody (map SearchResult.truncate [])
               (summarizeResults (lit '' weather '') (map SearchResult.truncate []))) 200"
      using GET_ok [where fetch = ?fetch and payload = ?payload, OF h1 h2 h3 h4 h5 h6] by simp
    moreover have "summarizeResults (lit '' weather '') []
                     = lit ''I could not find any results for  weather .''"
      by (simp add: summarizeResults_def lit_def)
    ultimately show ?thesis by simp
  qed
  show ?thesis using t sent resp by (simp add: searchUrl_eq)
qed

subsection \<open>Search failures on the client\<close>



text \<open>
  The message after a response that is not ok: the gateway's own when the body has a non-empty
  \<open>error\<close>, the generic one otherwise. It is never empty.
\<close>

lemma not_ok_message:
  assumes "trim input \<noteq> []" and "fetch (api_search input) = NotOk body"
  shows "error (last (states (handleSearch fetch input st))) =
           Some (case body of
                   Some (ErrorPayload (Some m)) \<Rightarrow>
                     if m = [] then lit ''Search failed. Please try again.'' else m
                 | _ \<Rightarrow> lit ''Search failed. Please try again.'')"
  using assms
  by (auto simp: handleSearch_def Let_def split: option.splits error_payload.splits)


subsection \<open>Voice capture\<close>

text \<open>
  Claim C9. A recognition error while listening sets the status to \<open>idle\<close> and changes nothing
  else, so the error message is left as it was; a failing \<open>start()\<close>, in contrast, sets the
  status to \<open>idle\<close> and the message \<open>"Voice input failed to start. Please try again."\<close>.
\<close>

theorem recognition_error_is_silent:
  assumes "status st = Listening" and "recognitionRef st'"
  shows "onerror st = st\<lparr>status := Idle\<rparr>
         \<and> status (onerror st) = Idle \<and> error (onerror st) = error st
         \<and> status (startListening StartThrew st') = Idle
         \<and> error (startListening StartThrew st')
             = Some (lit ''Voice input failed to start. Please try again.'')"
  using assms by (simp add: onerror_def startListening_def)

theorem recognition_error_is_silent_witness:
  "onerror \<lparr>query = [], transcript = [], results = [], status = Listening, error = None,
            speechSupported = True, recognitionRef = True\<rparr>
   = \<lparr>query = [], transcript = [], results = [], status = Idle, error = None,
      speechSupported = True, recognitionRef = True\<rparr>
   \<and> startListening StartThrew
        \<lparr>query = [], transcript = [], results = [], status = Idle, error = None,
         speechSupported = True, recognitionRef = True\<rparr>
     = \<lparr>query = [], transcript = [], results = [], status = Idle,
        error = Some (lit ''Voice input failed to start. Please try again.''),
        speechSupported = True, recognitionRef = True\<rparr>"
proof -
  let ?st = "\<lparr>query = [], transcript = [], results = [], status = Listening, error = None,
            speechSupported = True, recognitionRef = True\<rparr>"
  let ?st' = "\<lparr>query = [], transcript = [], results = [], status = Idle, error = None,
            speechSupported = True, recognitionRef = True\<rparr>"
  have h1: "status ?st = Listening" by simp
  have h2: "recognitionRef ?st'" by simp
  have "startListening StartThrew ?st'
          = ?st'\<lparr>error := Some (lit ''Voice input failed to start. Please try again.'')\<rparr>"
    by (simp add: startListening_def)
  then show ?thesis
    using recognition_error_is_silent [OF h1 h2] by simp
qed

subsection \<open>A success without results\<close>

text \<open>
  Claim C10. When the gateway's reply is ok and its body has no \<open>results\<close> field, the client
  stores the empty list, and both states that follow (\<open>responding\<close>, then \<open>idle\<close>) render the
  placeholder.
\<close>

theorem absent_results_show_placeholder:
  assumes "trim input \<noteq> []"
    and "fetch (api_search input) = OkReply (Inr payload)"
    and "results_field payload = None"
  shows "map status (states (handleSearch fetch input st)) = [Searching, Responding, Idle]
         \<and> map results (states (handleSearch fetch input st)) = [results st, [], []]
         \<and> map render_findings (tl (states (handleSearch fetch input st)))
             = [Placeholder, Placeholder]"
  using assms by (simp add: handleSearch_def Let_def render_findings_def hasResults_def)

theorem absent_results_show_placeholder_witness:
  "map results
     (states (handleSearch (\<lambda>u. OkReply (Inr (SearchPayload None (Some (lit ''Hello'')))))
               (lit ''news'')
               \<lparr>query = lit ''news'', transcript = [],
                results = [\<lparr>title = lit ''A'', link = lit ''a'', snippet = lit ''x'',
                            displayLink = None\<rparr>],
                status = Idle, error = None, speechSupported = True, recognitionRef = True\<rparr>))
   = [[\<lparr>title = lit ''A'', link = lit ''a'', snippet = lit ''x'', displayLink = None\<rparr>], [], []]
   \<and> map render_findings
     (tl (states (handleSearch (\<lambda>u. OkReply (Inr (SearchPayload None (Some (lit ''Hello'')))))
               (lit ''news'')
               \<lparr>query = lit ''news'', transcript = [],
                results = [\<lparr>title = lit ''A'', link = lit ''a'', snippet = lit ''x'',
                            displayLink = None\<rparr>],
                status = Idle, error = None, speechSupported = True, recognitionRef = True\<rparr>)))
   = [Placeholder, Placeholder]"
proof -
  let ?payload = "SearchPayload None (Some (lit ''Hello''))"
  let ?fetch = "\<lambda>u::URL. OkReply (Inr ?payload)"
  let ?st = "\<lparr>query = lit ''news'', transcript = [],
                results = [\<lparr>title = lit ''A'', link = lit ''a'', snippet = lit ''x'',
                            displayLink = None\<rparr>],
                status = Idle, error = None, speechSupported = True, recognitionRef = True\<rparr>"
  have h1: "trim (lit ''news'') \<noteq> []" by (simp add: trim_def lit_def isWhiteSpace_def)
  have h2: "?fetch (api_search (lit ''news'')) = OkReply (Inr ?payload)" by simp
  have h3: "results_field ?payload = None" by simp
  show ?thesis
    using absent_results_show_placeholder [where fetch = ?fetch and st = ?st, OF h1 h2 h3]
    by simp
qed

end
